theory Spec2Isabelle
  imports Main "HOL-Library.Sublist"
begin

section \<open>JavaScript values as the two report scripts see them\<close>

text \<open>
  Both scripts (\<^verbatim>\<open>ready-experiments.js\<close>, the status report, and the team report
  script with \<^verbatim>\<open>filterByTeam\<close>) work on what axios hands back as \<^verbatim>\<open>response.data\<close>:
  a value decoded from JSON. An object is kept as the list of its own properties, each
  key once; a property read is \<open>map_of\<close> on that list. \<open>JUndefined\<close> is what reading
  a missing property gives.

  Scope of the model of values:
  \<^item> a number in the payload is an integer (\<open>JNum\<close>); fractions, exponents and
    magnitudes from \<open>10^21\<close> on (where JavaScript prints an exponent) are left out;
  \<^item> a string is a list of code units in the range U+0000 to U+00FF (one \<open>char\<close>
    each);
  \<^item> the keys the scripts read are fixed and none of them names a built-in property
    (\<^verbatim>\<open>length\<close>, an index, a method of a prototype), so a read on a string, a
    number, a boolean or an array gives \<^verbatim>\<open>undefined\<close>.
\<close>

datatype jsval =
    JUndefined
  | JNull
  | JBool bool
  | JNum int
  | JStr string
  | JArr "jsval list"
  | JObj "(string \<times> jsval) list"

datatype error = TypeError | FetchError

text \<open>Truthiness (\<^verbatim>\<open>ToBoolean\<close>): what \<^verbatim>\<open>||\<close>, \<^verbatim>\<open>!\<close> and \<^verbatim>\<open>?:\<close> test.\<close>

fun truthy :: "jsval \<Rightarrow> bool" where
  "truthy JUndefined = False"
| "truthy JNull = False"
| "truthy (JBool b) = b"
| "truthy (JNum n) = (n \<noteq> 0)"
| "truthy (JStr s) = (s \<noteq> [])"
| "truthy (JArr xs) = True"
| "truthy (JObj kvs) = True"

text \<open>\<^verbatim>\<open>a || b\<close>: the left operand when it is truthy, the right operand otherwise.\<close>

definition jsOr :: "jsval \<Rightarrow> jsval \<Rightarrow> jsval" where
  "jsOr a b = (if truthy a then a else b)"

definition nullish :: "jsval \<Rightarrow> bool" where
  "nullish v = (v = JUndefined \<or> v = JNull)"

text \<open>
  \<^verbatim>\<open>obj.key\<close> for an \<open>obj\<close> that is neither \<^verbatim>\<open>undefined\<close> nor \<^verbatim>\<open>null\<close>. On those two
  JavaScript throws a TypeError: every callback below tests its record for them before
  its first read, and the nested reads go through \<open>optProp\<close> (\<^verbatim>\<open>obj?.key\<close>).
\<close>

fun getProp :: "jsval \<Rightarrow> string \<Rightarrow> jsval" where
  "getProp (JObj kvs) k = (case map_of kvs k of Some v \<Rightarrow> v | None \<Rightarrow> JUndefined)"
| "getProp v k = JUndefined"

definition optProp :: "jsval \<Rightarrow> string \<Rightarrow> jsval" where
  "optProp obj k = (if nullish obj then JUndefined else getProp obj k)"

definition typeof :: "jsval \<Rightarrow> string" where
  "typeof v =
     (case v of
        JUndefined \<Rightarrow> ''undefined''
      | JNull \<Rightarrow> ''object''
      | JBool b \<Rightarrow> ''boolean''
      | JNum n \<Rightarrow> ''number''
      | JStr s \<Rightarrow> ''string''
      | JArr xs \<Rightarrow> ''object''
      | JObj kvs \<Rightarrow> ''object'')"

definition isArray :: "jsval \<Rightarrow> bool" where
  "isArray v = (case v of JArr xs \<Rightarrow> True | _ \<Rightarrow> False)"

subsection \<open>Conversion to string\<close>

definition digitChar :: "nat \<Rightarrow> char" where
  "digitChar d = ''0123456789'' ! d"

fun showNat :: "nat \<Rightarrow> string" where
  "showNat n = (if n < 10 then [digitChar n] else showNat (n div 10) @ [digitChar (n mod 10)])"

definition showInt :: "int \<Rightarrow> string" where
  "showInt i = (if i < 0 then CHR ''-'' # showNat (nat (- i)) else showNat (nat i))"

text \<open>
  \<^verbatim>\<open>String(v)\<close>, a template literal \<^verbatim>\<open>`${v}`\<close> and the first step of \<^verbatim>\<open>parseInt(v)\<close> all
  run \<^verbatim>\<open>ToString\<close>. An array joins its elements with commas, \<^verbatim>\<open>undefined\<close> and
  \<^verbatim>\<open>null\<close> elements giving the empty string. A decoded object prints as
  \<^verbatim>\<open>[object Object]\<close> through \<^verbatim>\<open>Object.prototype.toString\<close>, unless it has an own
  property \<^verbatim>\<open>toString\<close>: that one hides the method, it is never callable in decoded
  JSON, \<^verbatim>\<open>valueOf\<close> gives back the object, and the conversion throws a TypeError.
\<close>

fun ToString :: "jsval \<Rightarrow> error + string"
  and joinElems :: "jsval list \<Rightarrow> error + string" where
  "ToString JUndefined = Inr ''undefined''"
| "ToString JNull = Inr ''null''"
| "ToString (JBool b) = Inr (if b then ''true'' else ''false'')"
| "ToString (JNum n) = Inr (showInt n)"
| "ToString (JStr s) = Inr s"
| "ToString (JArr xs) = joinElems xs"
| "ToString (JObj kvs) =
     (if ''toString'' \<in> fst ` set kvs then Inl TypeError else Inr ''[object Object]'')"
| "joinElems [] = Inr []"
| "joinElems (x # xs) =
     (case (if x = JUndefined \<or> x = JNull then Inr [] else ToString x) of
        Inl e \<Rightarrow> Inl e
      | Inr s \<Rightarrow>
          (if xs = [] then Inr s
           else (case joinElems xs of Inl e \<Rightarrow> Inl e | Inr r \<Rightarrow> Inr (s @ '','' @ r))))"

subsection \<open>String methods\<close>

text \<open>The code units of a value that \<^verbatim>\<open>typeof\<close> has found to be a string.\<close>

definition stringOf :: "jsval \<Rightarrow> string" where
  "stringOf v = (case v of JStr s \<Rightarrow> s | _ \<Rightarrow> [])"

text \<open>\<^verbatim>\<open>s.includes(pat)\<close>: \<open>pat\<close> occurs in \<open>s\<close> as a contiguous substring.\<close>

fun strIncludes :: "string \<Rightarrow> string \<Rightarrow> bool" where
  "strIncludes [] pat = (pat = [])"
| "strIncludes (c # cs) pat = (prefix pat (c # cs) \<or> strIncludes cs pat)"

text \<open>\<^verbatim>\<open>value.replace(/"/g, '""')\<close>: every double quote is replaced by two.\<close>

fun replaceQuotes :: "string \<Rightarrow> string" where
  "replaceQuotes [] = []"
| "replaceQuotes (c # cs) =
     (if c = CHR 0x22 then CHR 0x22 # CHR 0x22 # replaceQuotes cs else c # replaceQuotes cs)"

text \<open>\<^verbatim>\<open>s.split(sep)\<close> for a separator of one code unit; the result is never empty.\<close>

fun strSplit :: "string \<Rightarrow> char \<Rightarrow> string list" where
  "strSplit [] sep = [[]]"
| "strSplit (c # cs) sep =
     (if c = sep then [] # strSplit cs sep
      else (case strSplit cs sep of [] \<Rightarrow> [[c]] | p # ps \<Rightarrow> (c # p) # ps))"

text \<open>\<^verbatim>\<open>parts[i]\<close> on an array of strings: \<^verbatim>\<open>undefined\<close> past the end.\<close>

definition index :: "string list \<Rightarrow> nat \<Rightarrow> jsval" where
  "index parts i = (if i < length parts then JStr (parts ! i) else JUndefined)"

text \<open>
  \<^verbatim>\<open>s.toLowerCase()\<close> on code units up to U+00FF: the letters A to Z, and the
  Latin-1 capitals U+00C0 to U+00DE but for the multiplication sign U+00D7, move up by 32.
\<close>

definition lowerChar :: "char \<Rightarrow> char" where
  "lowerChar c =
     (let n = (of_char c :: nat)
      in if (65 \<le> n \<and> n \<le> 90) \<or> (192 \<le> n \<and> n \<le> 222 \<and> n \<noteq> 215)
         then char_of (n + 32) else c)"

definition toLowerCase :: "string \<Rightarrow> string" where
  "toLowerCase s = map lowerChar s"

section \<open>The CSV serializer's escape function\<close>

text \<open>
  \<^verbatim>\<open>
  const escapeCsv = (value) => {
    if (typeof value !== 'string') value = String(value);
    if (value.includes(',') || value.includes('"') || value.includes('\n')) {
      return `"${value.replace(/"/g, '""')}"`;
    }
    return value;
  };
  \<close>
  The same text stands in both scripts. \<open>escapeCsvStr\<close> is the part after the
  conversion to a string.
\<close>

definition escapeCsvStr :: "string \<Rightarrow> string" where
  "escapeCsvStr v =
     (if strIncludes v '','' \<or> strIncludes v [CHR 0x22] \<or> strIncludes v [CHR 0x0A]
      then [CHR 0x22] @ replaceQuotes v @ [CHR 0x22]
      else v)"

definition escapeCsv :: "jsval \<Rightarrow> error + string" where
  "escapeCsv v =
     (case (if typeof v \<noteq> ''string'' then ToString v else Inr (stringOf v)) of
        Inl e \<Rightarrow> Inl e
      | Inr s \<Rightarrow> Inr (escapeCsvStr s))"

text \<open>
  The convention a reader of the file applies to a field: a field wrapped in double
  quotes loses them and every doubled double quote inside becomes a single one; any
  other field is taken as it is.
\<close>

fun halveQuotes :: "string \<Rightarrow> string" where
  "halveQuotes [] = []"
| "halveQuotes [c] = [c]"
| "halveQuotes (c # d # cs) =
     (if c = CHR 0x22 \<and> d = CHR 0x22 then CHR 0x22 # halveQuotes cs
      else c # halveQuotes (d # cs))"

definition unescapeCsv :: "string \<Rightarrow> string" where
  "unescapeCsv f =
     (if 2 \<le> length f \<and> hd f = CHR 0x22 \<and> last f = CHR 0x22
      then halveQuotes (butlast (tl f))
      else f)"

section \<open>Integer coercion\<close>

text \<open>
  \<^verbatim>\<open>parseInt(v)\<close> with no radix: convert to a string, drop leading white space, take an
  optional sign, take a \<^verbatim>\<open>0x\<close> or \<^verbatim>\<open>0X\<close> prefix as radix 16 (radix 10 otherwise), read
  the longest run of digits of that radix, and give \<^verbatim>\<open>NaN\<close> when the run is empty.
  Otherwise the result is the Number nearest to the integer the digits write: a double,
  so an integer of more than 53 significant bits is rounded to 53 (ties to the even
  neighbour), and to \<^verbatim>\<open>Infinity\<close> from \<open>2^1024\<close> on. (The standard lets an engine
  drop decimal digits after the twentieth; Node's engine rounds the exact integer.)

  A result of \<^verbatim>\<open>parseInt\<close>: \<^verbatim>\<open>NaN\<close>, an integer that is a double (minus zero is
  \<open>Finite 0\<close>: it is \<^verbatim>\<open>===\<close> to zero), or an infinity.
\<close>

datatype number = NaN | Finite int | PosInfinity | NegInfinity

definition isWhiteSpace :: "char \<Rightarrow> bool" where
  "isWhiteSpace c =
     (c \<in> set [CHR 0x09, CHR 0x0A, CHR 0x0B, CHR 0x0C, CHR 0x0D, CHR 0x20, CHR 0xA0])"

definition digitValue :: "char \<Rightarrow> nat option" where
  "digitValue c =
     (let n = (of_char c :: nat)
      in if 48 \<le> n \<and> n \<le> 57 then Some (n - 48)
         else if 97 \<le> n \<and> n \<le> 122 then Some (n - 87)
         else if 65 \<le> n \<and> n \<le> 90 then Some (n - 55)
         else None)"

fun radixDigits :: "nat \<Rightarrow> string \<Rightarrow> nat list" where
  "radixDigits R [] = []"
| "radixDigits R (c # cs) =
     (case digitValue c of
        None \<Rightarrow> []
      | Some d \<Rightarrow> (if d < R then d # radixDigits R cs else []))"

text \<open>The integer that a run of digits writes in radix \<open>R\<close>, before any rounding.\<close>

definition mathInt :: "nat \<Rightarrow> nat list \<Rightarrow> int" where
  "mathInt R ds = foldl (\<lambda>acc d. acc * int R + int d) 0 ds"

text \<open>
  The double nearest to an integer that is not negative, when it is finite: below
  \<open>2^53\<close> the integer itself; above, the leading 53 bits, rounded up when the bits
  cut off are more than half a unit of the last place, or exactly half and the 53 bits
  odd.
\<close>

function bitLength :: "int \<Rightarrow> nat" where
  "bitLength n = (if n \<le> 0 then 0 else Suc (bitLength (n div 2)))"
  by pat_completeness auto
termination
  by (relation "measure nat") auto

definition roundToDouble :: "int \<Rightarrow> int option" where
  "roundToDouble m =
     (if m < 2 ^ 53 then Some m
      else (let e = bitLength m - 53;
                q = m div 2 ^ e;
                r = m mod 2 ^ e;
                half = 2 ^ (e - 1);
                q' = (if half < r \<or> (r = half \<and> odd q) then q + 1 else q);
                d = q' * 2 ^ e
            in if 2 ^ 1024 \<le> d then None else Some d))"

definition parseIntStr :: "string \<Rightarrow> number" where
  "parseIntStr inputString =
     (let S = dropWhile isWhiteSpace inputString;
          negative = (S \<noteq> [] \<and> hd S = CHR ''-'');
          S1 = (if S \<noteq> [] \<and> (hd S = CHR ''+'' \<or> hd S = CHR ''-'') then tl S else S);
          hex = (2 \<le> length S1 \<and> (take 2 S1 = ''0x'' \<or> take 2 S1 = ''0X''));
          S2 = (if hex then drop 2 S1 else S1);
          R = (if hex then 16 else 10);
          Z = radixDigits R S2
      in if Z = [] then NaN
         else (case roundToDouble (mathInt R Z) of
                 None \<Rightarrow> (if negative then NegInfinity else PosInfinity)
               | Some d \<Rightarrow> Finite ((if negative then - 1 else 1) * d)))"

definition parseInt :: "jsval \<Rightarrow> error + number" where
  "parseInt v = (case ToString v of Inl e \<Rightarrow> Inl e | Inr s \<Rightarrow> Inr (parseIntStr s))"

text \<open>\<^verbatim>\<open>a === b\<close> on two results of \<^verbatim>\<open>parseInt\<close>: \<^verbatim>\<open>NaN\<close> equals nothing.\<close>

definition strictEqNum :: "number \<Rightarrow> number \<Rightarrow> bool" where
  "strictEqNum a b = (a \<noteq> NaN \<and> a = b)"

section \<open>The filters\<close>

text \<open>
  \<^verbatim>\<open>array.filter(callback)\<close>: the elements on which the callback gives true, in order.
  An exception thrown by the callback ends the loop and leaves \<^verbatim>\<open>filter\<close>.
\<close>

fun arrayFilter :: "('a \<Rightarrow> error + bool) \<Rightarrow> 'a list \<Rightarrow> error + 'a list" where
  "arrayFilter f [] = Inr []"
| "arrayFilter f (x # xs) =
     (case f x of
        Inl e \<Rightarrow> Inl e
      | Inr b \<Rightarrow>
          (case arrayFilter f xs of
             Inl e \<Rightarrow> Inl e
           | Inr ys \<Rightarrow> Inr (if b then x # ys else ys)))"

text \<open>What the scripts print. Banners and the import instructions are left out.\<close>

datatype console =
    WarnNotArray string
  | LogFetched "nat option"
  | LogUnique string
  | LogNoneFound
  | LogFound nat
  | LogRow string
  | LogSaved string
  | ErrorSaving
  | LogSummary nat nat
  | ErrorOccurred

definition elements :: "jsval \<Rightarrow> jsval list" where
  "elements v = (case v of JArr xs \<Rightarrow> xs | _ \<Rightarrow> [])"

subsection \<open>Team filter\<close>

text \<open>
  \<^verbatim>\<open>
  const team_id = experiment.team_id || experiment.teamId || experiment.owner_team_id ||
                  experiment.ownerTeamId || experiment.metadata?.team_id ||
                  experiment.metadata?.teamId;
  return parseInt(team_id) === parseInt(teamId);
  \<close>
\<close>

definition teamIdOf :: "jsval \<Rightarrow> jsval" where
  "teamIdOf experiment =
     jsOr (jsOr (jsOr (jsOr (jsOr
       (getProp experiment ''team_id'')
       (getProp experiment ''teamId''))
       (getProp experiment ''owner_team_id''))
       (getProp experiment ''ownerTeamId''))
       (optProp (getProp experiment ''metadata'') ''team_id''))
       (optProp (getProp experiment ''metadata'') ''teamId'')"

definition teamCallback :: "jsval \<Rightarrow> jsval \<Rightarrow> error + bool" where
  "teamCallback teamId experiment =
     (if nullish experiment then Inl TypeError
      else (case parseInt (teamIdOf experiment) of
              Inl e \<Rightarrow> Inl e
            | Inr a \<Rightarrow>
                (case parseInt teamId of
                   Inl e \<Rightarrow> Inl e
                 | Inr b \<Rightarrow> Inr (strictEqNum a b))))"

definition filterByTeam :: "jsval \<Rightarrow> jsval \<Rightarrow> console list \<times> (error + jsval list)" where
  "filterByTeam experiments teamId =
     (if \<not> isArray experiments then ([WarnNotArray (typeof experiments)], Inr [])
      else ([], arrayFilter (teamCallback teamId) (elements experiments)))"

subsection \<open>Status filter\<close>

text \<open>
  \<^verbatim>\<open>
  const status = experiment.status || experiment.state || experiment.experiment_status ||
                 experiment.metadata?.status || experiment.metadata?.state;
  if (!status) return false;
  const statusStr = status.toString().toLowerCase();
  return targetStatuses.includes(statusStr);
  \<close>
  \<^verbatim>\<open>status.toString()\<close> on a truthy value is the conversion \<open>ToString\<close>: the
  method of the value's prototype, or the TypeError of calling an own property
  \<^verbatim>\<open>toString\<close> that is not a function.
\<close>

definition targetStatuses :: "string list" where
  "targetStatuses = [''ready'', ''wrap_up'']"

definition statusOf :: "jsval \<Rightarrow> jsval" where
  "statusOf experiment =
     jsOr (jsOr (jsOr (jsOr
       (getProp experiment ''status'')
       (getProp experiment ''state''))
       (getProp experiment ''experiment_status''))
       (optProp (getProp experiment ''metadata'') ''status''))
       (optProp (getProp experiment ''metadata'') ''state'')"

definition statusCallback :: "jsval \<Rightarrow> error + bool" where
  "statusCallback experiment =
     (if nullish experiment then Inl TypeError
      else (let status = statusOf experiment
            in if \<not> truthy status then Inr False
               else (case ToString status of
                       Inl e \<Rightarrow> Inl e
                     | Inr str \<Rightarrow> Inr (toLowerCase str \<in> set targetStatuses))))"

definition filterByTargetStatuses :: "jsval \<Rightarrow> console list \<times> (error + jsval list)" where
  "filterByTargetStatuses experiments =
     (if \<not> isArray experiments then ([WarnNotArray (typeof experiments)], Inr [])
      else ([], arrayFilter statusCallback (elements experiments)))"

section \<open>Normalisation and serialisation\<close>

text \<open>
  The variables the \<^verbatim>\<open>forEach\<close> callback of each report computes for one record.
  The URL is a string by construction; the other fields hold whatever value the
  record had.
\<close>

record normalizedRow =
  experimentName :: jsval
  experimentId :: jsval
  ownerName :: jsval
  ownerEmail :: jsval
  experimentUrl :: string

record statusRow = normalizedRow +
  experimentStatus :: jsval

subsection \<open>Owner resolution, as each script writes it\<close>

text \<open>
  \<^verbatim>\<open>
  const owner = experiment.owner || experiment.created_by || experiment.createdBy ||
                experiment.author || {};
  let ownerName = '';
  let ownerEmail = '';
  if (typeof owner === 'object' && owner !== null) {
    ownerName = owner.name || owner.full_name || owner.displayName || '';
    ownerEmail = owner.email || owner.email_address || '';
  } else if (typeof owner === 'string') {
    if (owner.includes('@')) {
      ownerEmail = owner;
      ownerName = owner.split('@')[0];
    } else {
      ownerName = owner;
    }
  }
  \<close>
  The result is the pair \<open>(ownerName, ownerEmail)\<close>. \<open>teamOwner\<close> is the text of
  \<^verbatim>\<open>displayExperimentOwners\<close>, \<open>readyOwner\<close> the text of
  \<^verbatim>\<open>generateReadyExperimentsCSV\<close>. Both run after the callback has read
  \<^verbatim>\<open>experiment.name\<close>, so on a record that is neither \<^verbatim>\<open>undefined\<close> nor \<^verbatim>\<open>null\<close>.
  The three \<^verbatim>\<open>||\<close> chains are written the same way wherever a script resolves an
  owner (the row and the summary of each script); they are named once here.
\<close>

definition ownerChain :: "jsval \<Rightarrow> jsval" where
  "ownerChain experiment =
     jsOr (jsOr (jsOr (jsOr
       (getProp experiment ''owner'')
       (getProp experiment ''created_by''))
       (getProp experiment ''createdBy''))
       (getProp experiment ''author''))
       (JObj [])"

definition ownerNameChain :: "jsval \<Rightarrow> jsval" where
  "ownerNameChain owner =
     jsOr (jsOr (jsOr
       (getProp owner ''name'')
       (getProp owner ''full_name''))
       (getProp owner ''displayName''))
       (JStr [])"

definition ownerEmailChain :: "jsval \<Rightarrow> jsval" where
  "ownerEmailChain owner =
     jsOr (jsOr (getProp owner ''email'') (getProp owner ''email_address'')) (JStr [])"

definition teamOwner :: "jsval \<Rightarrow> jsval \<times> jsval" where
  "teamOwner experiment =
     (let owner = ownerChain experiment
      in if typeof owner = ''object'' \<and> owner \<noteq> JNull then
           (ownerNameChain owner, ownerEmailChain owner)
         else if typeof owner = ''string'' then
           (if strIncludes (stringOf owner) ''@''
            then (index (strSplit (stringOf owner) CHR ''@'') 0, owner)
            else (owner, JStr []))
         else (JStr [], JStr []))"

definition readyOwner :: "jsval \<Rightarrow> jsval \<times> jsval" where
  "readyOwner experiment =
     (let owner = ownerChain experiment
      in if typeof owner = ''object'' \<and> owner \<noteq> JNull then
           (ownerNameChain owner, ownerEmailChain owner)
         else if typeof owner = ''string'' then
           (if strIncludes (stringOf owner) ''@''
            then (index (strSplit (stringOf owner) CHR ''@'') 0, owner)
            else (owner, JStr []))
         else (JStr [], JStr []))"

text \<open>
  The callback of the summary, again once per script:
  \<^verbatim>\<open>
  exp => {
    const owner = exp.owner || exp.created_by || exp.createdBy || exp.author || {};
    if (typeof owner === 'object' && owner !== null) {
      return owner.email || owner.email_address || '';
    } else if (typeof owner === 'string' && owner.includes('@')) {
      return owner;
    }
    return '';
  }
  \<close>
\<close>

definition teamSummaryEmail :: "jsval \<Rightarrow> jsval" where
  "teamSummaryEmail exp =
     (let owner = ownerChain exp
      in if typeof owner = ''object'' \<and> owner \<noteq> JNull then
           ownerEmailChain owner
         else if typeof owner = ''string'' \<and> strIncludes (stringOf owner) ''@'' then owner
         else JStr [])"

definition readySummaryEmail :: "jsval \<Rightarrow> jsval" where
  "readySummaryEmail exp =
     (let owner = ownerChain exp
      in if typeof owner = ''object'' \<and> owner \<noteq> JNull then
           ownerEmailChain owner
         else if typeof owner = ''string'' \<and> strIncludes (stringOf owner) ''@'' then owner
         else JStr [])"

subsection \<open>One row\<close>

text \<open>
  \<^verbatim>\<open>
  const experimentName = experiment.name || experiment.title || 'Unnamed Experiment';
  const experimentId = experiment.id || experiment.experiment_id || '';
  const experimentUrl = experimentId ? `https://eppo.cloud/experiments/${experimentId}` : '';
  \<close>
  The template literal converts the identifier to a string and can throw there.
\<close>

definition urlOf :: "jsval \<Rightarrow> error + string" where
  "urlOf ident =
     (if truthy ident
      then (case ToString ident of
              Inl e \<Rightarrow> Inl e
            | Inr s \<Rightarrow> Inr (''https://eppo.cloud/experiments/'' @ s))
      else Inr [])"

definition teamRow :: "jsval \<Rightarrow> error + normalizedRow" where
  "teamRow experiment =
     (if nullish experiment then Inl TypeError
      else (let name = jsOr (jsOr (getProp experiment ''name'') (getProp experiment ''title''))
                         (JStr ''Unnamed Experiment'');
                ident = jsOr (jsOr (getProp experiment ''id'') (getProp experiment ''experiment_id''))
                          (JStr []);
                owner = teamOwner experiment
            in (case urlOf ident of
                  Inl e \<Rightarrow> Inl e
                | Inr url \<Rightarrow>
                    Inr \<lparr>experimentName = name, experimentId = ident, ownerName = fst owner,
                         ownerEmail = snd owner, experimentUrl = url\<rparr>)))"

definition readyRow :: "jsval \<Rightarrow> error + statusRow" where
  "readyRow experiment =
     (if nullish experiment then Inl TypeError
      else (let name = jsOr (jsOr (getProp experiment ''name'') (getProp experiment ''title''))
                         (JStr ''Unnamed Experiment'');
                ident = jsOr (jsOr (getProp experiment ''id'') (getProp experiment ''experiment_id''))
                          (JStr []);
                status = jsOr (statusOf experiment) (JStr []);
                owner = readyOwner experiment
            in (case urlOf ident of
                  Inl e \<Rightarrow> Inl e
                | Inr url \<Rightarrow>
                    Inr \<lparr>experimentName = name, experimentId = ident, ownerName = fst owner,
                         ownerEmail = snd owner, experimentUrl = url,
                         experimentStatus = status\<rparr>)))"

text \<open>The fields of a line, each through \<open>escapeCsv\<close>, left to right, with commas between.\<close>

fun csvFields :: "jsval list \<Rightarrow> error + string" where
  "csvFields [] = Inr []"
| "csvFields [v] = escapeCsv v"
| "csvFields (v # w # vs) =
     (case escapeCsv v of
        Inl e \<Rightarrow> Inl e
      | Inr s \<Rightarrow> (case csvFields (w # vs) of Inl e \<Rightarrow> Inl e | Inr r \<Rightarrow> Inr (s @ '','' @ r)))"

definition teamCsvRow :: "jsval \<Rightarrow> error + string" where
  "teamCsvRow experiment =
     (case teamRow experiment of
        Inl e \<Rightarrow> Inl e
      | Inr r \<Rightarrow>
          csvFields [experimentName r, experimentId r, ownerName r, ownerEmail r,
                     JStr (experimentUrl r)])"

definition readyCsvRow :: "jsval \<Rightarrow> error + string" where
  "readyCsvRow experiment =
     (case readyRow experiment of
        Inl e \<Rightarrow> Inl e
      | Inr r \<Rightarrow>
          csvFields [ownerName r, ownerEmail r, experimentName r, experimentId r,
                     experimentStatus r, JStr (experimentUrl r)])"

subsection \<open>Writing the report\<close>

text \<open>
  What a run takes from outside: the date of the day as \<^verbatim>\<open>YYYY-MM-DD\<close>, and whether
  \<^verbatim>\<open>fs.writeFileSync\<close> succeeds.
\<close>

record env =
  today :: string
  diskOk :: bool

text \<open>
  What a piece of a run does: the lines it prints, the files it writes (name and
  content), and the exception it leaves with, if any.
\<close>

record effects =
  console :: "console list"
  files :: "(string \<times> string) list"
  thrown :: "error option"

definition andThen :: "effects \<Rightarrow> effects \<Rightarrow> effects" where
  "andThen a b =
     (if thrown a \<noteq> None then a
      else \<lparr>console = console a @ console b, files = files a @ files b, thrown = thrown b\<rparr>)"

text \<open>A loop that runs \<open>f\<close> on each element and stops at the first exception.\<close>

fun forEachLine :: "(jsval \<Rightarrow> error + string) \<Rightarrow> jsval list \<Rightarrow> string list \<times> error option" where
  "forEachLine f [] = ([], None)"
| "forEachLine f (x # xs) =
     (case f x of
        Inl e \<Rightarrow> ([], Some e)
      | Inr r \<Rightarrow> (r # fst (forEachLine f xs), snd (forEachLine f xs)))"

text \<open>\<^verbatim>\<open>rows.join('\n')\<close>\<close>

fun joinLines :: "string list \<Rightarrow> string" where
  "joinLines [] = []"
| "joinLines [r] = r"
| "joinLines (r # q # rs) = r @ [CHR 0x0A] @ joinLines (q # rs)"

text \<open>
  A \<^verbatim>\<open>Set\<close>, as the list of its members in insertion order. Two primitive values are
  the same member when they are equal. An array or an object is a member by identity,
  and the ones added here come from different places of the decoded payload, so each
  is a new member.
\<close>

definition isPrimitive :: "jsval \<Rightarrow> bool" where
  "isPrimitive v = (case v of JArr xs \<Rightarrow> False | JObj kvs \<Rightarrow> False | _ \<Rightarrow> True)"

definition setAdd :: "jsval list \<Rightarrow> jsval \<Rightarrow> jsval list" where
  "setAdd members v = (if isPrimitive v \<and> v \<in> set members then members else members @ [v])"

definition newSet :: "jsval list \<Rightarrow> jsval list" where
  "newSet vs = foldl setAdd [] vs"

definition displayExperimentOwners :: "env \<Rightarrow> string \<Rightarrow> jsval list \<Rightarrow> effects" where
  "displayExperimentOwners ev teamId experiments =
     (if length experiments = 0
      then \<lparr>console = [LogNoneFound], files = [], thrown = None\<rparr>
      else (let rows = forEachLine teamCsvRow experiments
            in (case snd rows of
                  Some e \<Rightarrow>
                    \<lparr>console = LogFound (length experiments) # map LogRow (fst rows),
                     files = [], thrown = Some e\<rparr>
                | None \<Rightarrow>
                    (let csvContent =
                           joinLines (''experiment_name,experiment_id,owner.name,owner.email,experiment_url''
                                      # fst rows);
                         fileName = ''eppo_experiments_team_'' @ teamId @ ''_'' @ today ev @ ''.csv'';
                         uniqueOwnerEmails =
                           newSet (filter (\<lambda>email. email \<noteq> JStr [])
                                     (map teamSummaryEmail experiments))
                     in \<lparr>console = LogFound (length experiments) # map LogRow (fst rows)
                                    @ (if diskOk ev then [LogSaved fileName] else [ErrorSaving])
                                    @ [LogSummary (length experiments) (length uniqueOwnerEmails)],
                         files = (if diskOk ev then [(fileName, csvContent)] else []),
                         thrown = None\<rparr>))))"

definition generateReadyExperimentsCSV :: "env \<Rightarrow> jsval list \<Rightarrow> effects" where
  "generateReadyExperimentsCSV ev experiments =
     (if length experiments = 0
      then \<lparr>console = [LogNoneFound], files = [], thrown = None\<rparr>
      else (let rows = forEachLine readyCsvRow experiments
            in (case snd rows of
                  Some e \<Rightarrow>
                    \<lparr>console = LogFound (length experiments) # map LogRow (fst rows),
                     files = [], thrown = Some e\<rparr>
                | None \<Rightarrow>
                    (let csvContent =
                           joinLines (''owner,owner_email,experiment_name,experiment_id,experiment_status,experiment_link''
                                      # fst rows);
                         fileName = ''eppo_ready_wrap_up_experiments_'' @ today ev @ ''.csv'';
                         uniqueOwnerEmails =
                           newSet (filter (\<lambda>email. email \<noteq> JStr [])
                                     (map readySummaryEmail experiments))
                     in \<lparr>console = LogFound (length experiments) # map LogRow (fst rows)
                                    @ (if diskOk ev then [LogSaved fileName] else [ErrorSaving])
                                    @ [LogSummary (length experiments) (length uniqueOwnerEmails)],
                         files = (if diskOk ev then [(fileName, csvContent)] else []),
                         thrown = None\<rparr>))))"

subsection \<open>A run, from the answer of the fetch on\<close>

text \<open>
  \<^verbatim>\<open>run\<close> awaits \<^verbatim>\<open>fetchExperiments\<close>, which either gives \<^verbatim>\<open>response.data\<close> or throws
  again what axios threw (\<open>Inl\<close>). On an array it first prints the distinct truthy
  values of the filter's field, each through a template literal. Whatever is thrown
  inside \<^verbatim>\<open>run\<close> is caught there: the error is printed and the process exits with
  status 1. Otherwise nothing sets a status and the process ends with 0.
\<close>

fun readAll :: "(jsval \<Rightarrow> jsval) \<Rightarrow> jsval list \<Rightarrow> error + jsval list" where
  "readAll f [] = Inr []"
| "readAll f (x # xs) =
     (if nullish x then Inl TypeError
      else (case readAll f xs of Inl e \<Rightarrow> Inl e | Inr vs \<Rightarrow> Inr (f x # vs)))"

definition printUnique :: "(jsval \<Rightarrow> jsval) \<Rightarrow> jsval \<Rightarrow> effects" where
  "printUnique f allExperiments =
     (if isArray allExperiments
      then (case readAll f (elements allExperiments) of
              Inl e \<Rightarrow> \<lparr>console = [], files = [], thrown = Some e\<rparr>
            | Inr vs \<Rightarrow>
                (let lines = forEachLine ToString (newSet (filter truthy vs))
                 in \<lparr>console = map LogUnique (fst lines), files = [], thrown = snd lines\<rparr>))
      else \<lparr>console = [], files = [], thrown = None\<rparr>)"

definition logFetched :: "jsval \<Rightarrow> effects" where
  "logFetched allExperiments =
     \<lparr>console = [LogFetched (if isArray allExperiments
                               then Some (length (elements allExperiments)) else None)],
      files = [], thrown = None\<rparr>"

definition filterEffects :: "console list \<times> (error + jsval list) \<Rightarrow> effects" where
  "filterEffects r =
     \<lparr>console = fst r, files = [],
      thrown = (case snd r of Inl e \<Rightarrow> Some e | Inr ys \<Rightarrow> None)\<rparr>"

definition filtered :: "console list \<times> (error + jsval list) \<Rightarrow> jsval list" where
  "filtered r = (case snd r of Inl e \<Rightarrow> [] | Inr ys \<Rightarrow> ys)"

record outcome =
  printed :: "console list"
  saved :: "(string \<times> string) list"
  exitCode :: nat

definition finish :: "effects \<Rightarrow> outcome" where
  "finish e =
     (case thrown e of
        None \<Rightarrow> \<lparr>printed = console e, saved = files e, exitCode = 0\<rparr>
      | Some err \<Rightarrow> \<lparr>printed = console e @ [ErrorOccurred], saved = files e, exitCode = 1\<rparr>)"

definition runTeam :: "env \<Rightarrow> string \<Rightarrow> error + jsval \<Rightarrow> outcome" where
  "runTeam ev teamId fetched =
     finish
       (case fetched of
          Inl e \<Rightarrow> \<lparr>console = [], files = [], thrown = Some e\<rparr>
        | Inr allExperiments \<Rightarrow>
            (let teamExperiments = filterByTeam allExperiments (JStr teamId)
             in andThen (logFetched allExperiments)
                 (andThen (printUnique teamIdOf allExperiments)
                   (andThen (filterEffects teamExperiments)
                     (displayExperimentOwners ev teamId (filtered teamExperiments))))))"

definition runReady :: "env \<Rightarrow> error + jsval \<Rightarrow> outcome" where
  "runReady ev fetched =
     finish
       (case fetched of
          Inl e \<Rightarrow> \<lparr>console = [], files = [], thrown = Some e\<rparr>
        | Inr allExperiments \<Rightarrow>
            (let readyExperiments = filterByTargetStatuses allExperiments
             in andThen (logFetched allExperiments)
                 (andThen (printUnique statusOf allExperiments)
                   (andThen (filterEffects readyExperiments)
                     (generateReadyExperimentsCSV ev (filtered readyExperiments))))))"

section \<open>The ordered lookup the specification describes\<close>

text \<open>
  The first truthy value of a list of candidates, and \<open>dflt\<close> when there is none.
\<close>

definition firstTruthy :: "jsval list \<Rightarrow> jsval \<Rightarrow> jsval" where
  "firstTruthy candidates dflt = (case find truthy candidates of Some v \<Rightarrow> v | None \<Rightarrow> dflt)"

text \<open>
  The first candidate that is neither \<^verbatim>\<open>undefined\<close> nor \<^verbatim>\<open>null\<close>: the reading
  "first defined, non-null value".
\<close>

definition firstDefined :: "jsval list \<Rightarrow> jsval option" where
  "firstDefined candidates = find (\<lambda>v. \<not> nullish v) candidates"

text \<open>
  A candidate location is a path of keys (\<^verbatim>\<open>metadata.team_id\<close> is the path
  \<open>[''metadata'', ''team_id'']\<close>). Following a path stops with \<^verbatim>\<open>undefined\<close> at a
  value that is \<^verbatim>\<open>undefined\<close> or \<^verbatim>\<open>null\<close>.
\<close>

fun lookupPath :: "jsval \<Rightarrow> string list \<Rightarrow> jsval" where
  "lookupPath v [] = v"
| "lookupPath v (k # ks) = (if nullish v then JUndefined else lookupPath (getProp v k) ks)"

definition candidates :: "jsval \<Rightarrow> string list list \<Rightarrow> jsval list" where
  "candidates v paths = map (lookupPath v) paths"

definition teamIdPaths :: "string list list" where
  "teamIdPaths =
     [[''team_id''], [''teamId''], [''owner_team_id''], [''ownerTeamId''],
      [''metadata'', ''team_id''], [''metadata'', ''teamId'']]"

definition statusPaths :: "string list list" where
  "statusPaths =
     [[''status''], [''state''], [''experiment_status''],
      [''metadata'', ''status''], [''metadata'', ''state'']]"

definition ownerPaths :: "string list list" where
  "ownerPaths = [[''owner''], [''created_by''], [''createdBy''], [''author'']]"

definition ownerNamePaths :: "string list list" where
  "ownerNamePaths = [[''name''], [''full_name''], [''displayName'']]"

definition ownerEmailPaths :: "string list list" where
  "ownerEmailPaths = [[''email''], [''email_address'']]"


text \<open>
  Owner resolution in the words of the specification: the source is the first
  non-empty (truthy) value among the four owner fields. An object source (an array is
  an object too) gives the first of its name fields and the first of its e-mail
  fields, each empty when it has none. A string source with an \<^verbatim>\<open>@\<close> is the
  e-mail, and what stands before the first \<^verbatim>\<open>@\<close> is the name; a string source
  without one is the name. With no source, or a source that is a number or
  \<^verbatim>\<open>true\<close>, both are empty.
\<close>

definition ownerSpec :: "jsval \<Rightarrow> jsval \<times> jsval" where
  "ownerSpec record =
     (case find truthy (candidates record ownerPaths) of
        None \<Rightarrow> (JStr [], JStr [])
      | Some source \<Rightarrow>
          (case source of
             JObj kvs \<Rightarrow>
               (firstTruthy (candidates source ownerNamePaths) (JStr []),
                firstTruthy (candidates source ownerEmailPaths) (JStr []))
           | JArr xs \<Rightarrow>
               (firstTruthy (candidates source ownerNamePaths) (JStr []),
                firstTruthy (candidates source ownerEmailPaths) (JStr []))
           | JStr s \<Rightarrow>
               (if CHR ''@'' \<in> set s
                then (JStr (takeWhile (\<lambda>c. c \<noteq> CHR ''@'') s), JStr s)
                else (JStr s, JStr []))
           | _ \<Rightarrow> (JStr [], JStr [])))"

section \<open>Sample records\<close>

definition sampleTeam :: jsval where
  "sampleTeam =
     JObj [(''team_id'', JNum 123), (''id'', JStr ''exp_456''),
           (''name'', JStr ''Checkout Flow Optimization''), (''status'', JStr ''READY''),
           (''owner'', JObj [(''name'', JStr ''Jane Smith''), (''email'', JStr ''jane@x.com'')])]"

definition samplePlain :: jsval where
  "samplePlain =
     JObj [(''name'', JStr ''Pricing''), (''status'', JStr ''READY_SOON''),
           (''owner'', JStr ''Bob'')]"


definition sampleNested :: jsval where
  "sampleNested =
     JObj [(''metadata'', JObj [(''teamId'', JStr ''123''), (''state'', JStr ''wrap_up'')]),
           (''createdBy'', JStr ''bob@x.com'')]"

definition sampleEmptyStatus :: jsval where
  "sampleEmptyStatus = JObj [(''status'', JStr []), (''state'', JStr ''ready'')]"

section \<open>Facts about the string functions\<close>

lemma includes_single: "strIncludes s [c] \<longleftrightarrow> c \<in> set s"
  by (induction s) auto

lemma strSplit_first:
  "strSplit s sep \<noteq> [] \<and> hd (strSplit s sep) = takeWhile (\<lambda>c. c \<noteq> sep) s"
  by (induction s) (auto split: list.splits)

lemma index_strSplit_0: "index (strSplit s sep) 0 = JStr (takeWhile (\<lambda>c. c \<noteq> sep) s)"
  using strSplit_first [of s sep] by (cases "strSplit s sep") (auto simp: index_def)

lemma string_or_ToString:
  "(if typeof v \<noteq> ''string'' then ToString v else Inr (stringOf v)) = ToString v"
  by (cases v) (simp_all add: typeof_def stringOf_def)

lemma replaceQuotes_concat:
  "replaceQuotes s = concat (map (\<lambda>c. if c = CHR 0x22 then [CHR 0x22, CHR 0x22] else [c]) s)"
  by (induction s) auto

lemma halveQuotes_replaceQuotes: "halveQuotes (replaceQuotes s) = s"
proof (induction s)
  case Nil
  show ?case by simp
next
  case (Cons c s)
  show ?case
  proof (cases "c = CHR 0x22")
    case True
    with Cons show ?thesis by simp
  next
    case False
    with Cons show ?thesis by (cases "replaceQuotes s") auto
  qed
qed

section \<open>Facts about conversions, chains and the filter loop\<close>

lemma ToString_error:
  "ToString v = Inl e \<Longrightarrow> e = TypeError"
  "joinElems vs = Inl e \<Longrightarrow> e = TypeError"
  by (induction v and vs rule: ToString_joinElems.induct)
     (auto split: if_splits sum.splits)

lemma arrayFilter_char:
  assumes "\<And>x e. x \<in> set xs \<Longrightarrow> f x = Inl e \<Longrightarrow> e = TypeError"
  shows "arrayFilter f xs =
     (if \<exists>x\<in>set xs. f x = Inl TypeError then Inl TypeError
      else Inr (filter (\<lambda>x. f x = Inr True) xs))"
  using assms
proof (induction xs)
  case Nil
  show ?case by simp
next
  case (Cons x xs)
  have IH: "arrayFilter f xs =
     (if \<exists>x\<in>set xs. f x = Inl TypeError then Inl TypeError
      else Inr (filter (\<lambda>x. f x = Inr True) xs))"
    by (rule Cons.IH) (rule Cons.prems, simp_all)
  show ?case
  proof (cases "f x")
    case (Inl e)
    then have "e = TypeError" by (rule Cons.prems [rotated]) simp
    with Inl show ?thesis by simp
  next
    case (Inr b)
    with IH show ?thesis by (auto split: sum.splits)
  qed
qed

lemma jsOr_assoc: "jsOr (jsOr a b) c = jsOr a (jsOr b c)"
  by (simp add: jsOr_def)

lemma statusOf_candidates:
  "\<not> nullish e \<Longrightarrow>
   statusOf e = firstTruthy (candidates e statusPaths) (lookupPath e [''metadata'', ''state''])"
  apply (simp add: statusOf_def candidates_def statusPaths_def optProp_def jsOr_assoc)
  apply (simp add: firstTruthy_def jsOr_def)
  done

lemma teamIdOf_candidates:
  "\<not> nullish e \<Longrightarrow>
   teamIdOf e = firstTruthy (candidates e teamIdPaths) (lookupPath e [''metadata'', ''teamId''])"
  apply (simp add: teamIdOf_def candidates_def teamIdPaths_def optProp_def jsOr_assoc)
  apply (simp add: firstTruthy_def jsOr_def)
  done


lemma firstTruthy_Some: "find truthy cs = Some v \<Longrightarrow> firstTruthy cs d = v \<and> truthy v"
  proof
  assume f: "find truthy cs = Some v"
  then show "firstTruthy cs d = v" by (simp add: firstTruthy_def)
  from f show "truthy v" by (auto simp: find_Some_iff)
qed

lemma firstTruthy_None: "find truthy cs = None \<Longrightarrow> firstTruthy cs d = d"
  by (simp add: firstTruthy_def)

lemma find_truthy_None_falsy: "find truthy cs = None \<Longrightarrow> d \<in> set cs \<Longrightarrow> \<not> truthy d"
  by (simp add: find_None_iff)

lemma last_status_candidate:
  "lookupPath e [''metadata'', ''state''] \<in> set (candidates e statusPaths)"
  by (simp add: candidates_def statusPaths_def)

lemma statusCallback_char:
  assumes "\<not> nullish e"
  shows "statusCallback e =
     (case find truthy (candidates e statusPaths) of
        None \<Rightarrow> Inr False
      | Some v \<Rightarrow>
          (case ToString v of
             Inl x \<Rightarrow> Inl x
           | Inr s \<Rightarrow> Inr (toLowerCase s \<in> {''ready'', ''wrap_up''})))"
proof (cases "find truthy (candidates e statusPaths)")
  case None
  then have "\<not> truthy (statusOf e)"
    using assms last_status_candidate [of e]
    by (simp add: statusOf_candidates firstTruthy_None find_truthy_None_falsy)
  with None assms show ?thesis by (simp add: statusCallback_def)
next
  case (Some v)
  then have "statusOf e = v" and "truthy v"
    using assms by (simp_all add: statusOf_candidates firstTruthy_Some)
  with Some assms show ?thesis
    by (simp add: statusCallback_def targetStatuses_def split: sum.splits)
qed

lemma statusCallback_error: "statusCallback e = Inl x \<Longrightarrow> x = TypeError"
  by (auto simp: statusCallback_def Let_def split: if_splits sum.splits dest: ToString_error(1))






lemma arrayFilter_subseq: "arrayFilter f xs = Inr ys \<Longrightarrow> subseq ys xs"
proof (induction xs arbitrary: ys)
  case Nil
  then show ?case by simp
next
  case (Cons x xs)
  then show ?case by (auto split: sum.splits if_splits)
qed

lemma subseq_count_le: "subseq ys xs \<Longrightarrow> count_list ys e \<le> count_list xs e"
  by (induction rule: list_emb.induct) auto

lemma team_example:
  "snd (filterByTeam (JArr [sampleTeam, samplePlain, sampleNested]) (JStr ''123''))
     = Inr [sampleTeam, sampleNested]"
  by code_simp

lemma status_example:
  "snd (filterByTargetStatuses (JArr [sampleTeam, samplePlain, sampleNested, sampleEmptyStatus]))
     = Inr [sampleTeam, sampleNested, sampleEmptyStatus]"
  by code_simp

section \<open>Escaping\<close>

lemma escapeCsvStr_plain:
  assumes "CHR 0x22 \<notin> set s"
  shows "unescapeCsv s = s"
proof (cases "2 \<le> length s \<and> hd s = CHR 0x22")
  case True
  then have "s \<noteq> []" by auto
  with True have "CHR 0x22 \<in> set s" by (metis hd_in_set)
  with assms show ?thesis by simp
next
  case False
  then show ?thesis by (auto simp: unescapeCsv_def)
qed

lemma unescapeCsv_escapeCsvStr: "unescapeCsv (escapeCsvStr s) = s"
proof (cases "CHR '','' \<in> set s \<or> CHR 0x22 \<in> set s \<or> CHR 0x0A \<in> set s")
  case True
  then have "escapeCsvStr s = CHR 0x22 # replaceQuotes s @ [CHR 0x22]"
    by (simp add: escapeCsvStr_def includes_single)
  then show ?thesis
    by (simp add: unescapeCsv_def butlast_append halveQuotes_replaceQuotes)
next
  case False
  then have "escapeCsvStr s = s" and "CHR 0x22 \<notin> set s"
    by (simp_all add: escapeCsvStr_def includes_single)
  then show ?thesis by (simp add: escapeCsvStr_plain)
qed

text \<open>
  C1. Whatever the field value, \<open>escapeCsv\<close> converts it to a string first (a string is
  its own conversion; the call throws when the conversion does). The result is that
  string wrapped in double quotes, every double quote inside doubled, exactly when the
  string contains a comma, a double quote or a line feed; otherwise it is the string
  itself, unchanged.
\<close>

theorem escapeCsv_quotes_iff_special:
  "escapeCsv v =
     (case ToString v of
        Inl e \<Rightarrow> Inl e
      | Inr s \<Rightarrow>
          Inr (if CHR '','' \<in> set s \<or> CHR 0x22 \<in> set s \<or> CHR 0x0A \<in> set s
               then [CHR 0x22]
                    @ concat (map (\<lambda>c. if c = CHR 0x22 then [CHR 0x22, CHR 0x22] else [c]) s)
                    @ [CHR 0x22]
               else s))"
  by (simp add: escapeCsv_def string_or_ToString escapeCsvStr_def includes_single
        replaceQuotes_concat split: sum.splits)

text \<open>The two renderings the specification gives as examples, and a number.\<close>

lemma escapeCsv_examples:
  "escapeCsv (JStr ''O'Brien, Jr.'') = Inr ([CHR 0x22] @ ''O'Brien, Jr.'' @ [CHR 0x22])"
  "escapeCsv (JStr (''Say '' @ [CHR 0x22] @ ''hi'' @ [CHR 0x22]))
     = Inr ([CHR 0x22] @ ''Say '' @ [CHR 0x22, CHR 0x22] @ ''hi'' @ [CHR 0x22, CHR 0x22] @ [CHR 0x22])"
  "escapeCsv (JStr ''exp_456'') = Inr ''exp_456''"
  "escapeCsv (JNum 42) = Inr ''42''"
  by (simp_all add: escapeCsv_def typeof_def stringOf_def escapeCsvStr_def showInt_def
        digitChar_def)

text \<open>
  C10. Escaping loses nothing: for every string \<open>s\<close>, reading the escaped field back
  (strip the wrapping double quotes if there are any and halve the doubled double
  quotes, else take the field as it is) gives \<open>s\<close> again. So escaping is injective on
  strings.
\<close>

theorem escapeCsv_lossless:
  "escapeCsv (JStr s) = Inr (escapeCsvStr s)
   \<and> unescapeCsv (escapeCsvStr s) = s
   \<and> inj (\<lambda>s. escapeCsv (JStr s))"
proof -
  have esc: "escapeCsv (JStr t) = Inr (escapeCsvStr t)" for t
    by (simp add: escapeCsv_def typeof_def stringOf_def)
  have "inj escapeCsvStr"
    by (rule inj_on_inverseI [where g = unescapeCsv]) (rule unescapeCsv_escapeCsvStr)
  then have "inj (\<lambda>s. escapeCsv (JStr s))"
    by (simp add: esc inj_def)
  with esc unescapeCsv_escapeCsvStr show ?thesis by simp
qed

section \<open>What the filters keep\<close>

text \<open>
  C3. The status filter, on an array \<open>xs\<close>. The status of a record is the first
  truthy value at the five locations \<open>statusPaths\<close>. The filter throws (a TypeError)
  exactly when a record is \<^verbatim>\<open>undefined\<close> or \<^verbatim>\<open>null\<close> or its status cannot be
  converted to a string; otherwise it returns, in order, exactly the records that
  have a status whose lower-cased string is \<^verbatim>\<open>ready\<close> or \<^verbatim>\<open>wrap_up\<close>. A record
  with no status is dropped, and so is one with any other status.
\<close>

theorem status_filter_keeps_iff_ready_or_wrap_up:
  "snd (filterByTargetStatuses (JArr xs)) =
     (if \<exists>e\<in>set xs. nullish e
           \<or> (\<exists>v. find truthy (candidates e statusPaths) = Some v \<and> ToString v = Inl TypeError)
      then Inl TypeError
      else Inr (filter
                  (\<lambda>e. \<exists>v s. find truthy (candidates e statusPaths) = Some v
                           \<and> ToString v = Inr s
                           \<and> toLowerCase s \<in> {''ready'', ''wrap_up''})
                  xs))"
proof -
  let ?bad = "\<lambda>e. nullish e
     \<or> (\<exists>v. find truthy (candidates e statusPaths) = Some v \<and> ToString v = Inl TypeError)"
  let ?keep = "\<lambda>e. \<exists>v s. find truthy (candidates e statusPaths) = Some v
     \<and> ToString v = Inr s \<and> toLowerCase s \<in> {''ready'', ''wrap_up''}"
  have bad: "statusCallback e = Inl TypeError \<longleftrightarrow> ?bad e" for e
  proof (cases "nullish e")
    case True
    then show ?thesis by (simp add: statusCallback_def)
  next
    case False
    then show ?thesis
      by (auto simp: statusCallback_char split: option.splits sum.splits
            dest: ToString_error(1))
  qed
  have keep: "statusCallback e = Inr True \<longleftrightarrow> ?keep e" if "\<not> ?bad e" for e
    using that by (auto simp: statusCallback_char split: option.splits sum.splits)
  have "arrayFilter statusCallback xs =
     (if \<exists>e\<in>set xs. statusCallback e = Inl TypeError then Inl TypeError
      else Inr (filter (\<lambda>e. statusCallback e = Inr True) xs))"
    by (rule arrayFilter_char) (rule statusCallback_error)
  also have "\<dots> = (if \<exists>e\<in>set xs. ?bad e then Inl TypeError else Inr (filter ?keep xs))"
  proof (cases "\<exists>e\<in>set xs. ?bad e")
    case True
    then show ?thesis by (simp add: bad)
  next
    case False
    then have "filter (\<lambda>e. statusCallback e = Inr True) xs = filter ?keep xs"
      by (intro filter_cong refl keep) blast
    with False show ?thesis by (simp add: bad)
  qed
  finally show ?thesis
    by (simp add: filterByTargetStatuses_def isArray_def elements_def)
qed





lemma team_example_rounding:
  "parseInt (JStr ''9007199254740993'') = Inr (Finite 9007199254740992)"
  "parseInt (JStr ''9007199254740992'') = Inr (Finite 9007199254740992)"
  "snd (filterByTeam (JArr [JObj [(''team_id'', JStr ''9007199254740993'')]])
         (JStr ''9007199254740992''))
     = Inr [JObj [(''team_id'', JStr ''9007199254740993'')]]"
  by code_simp+



text \<open>
  C7. Whatever a filter returns is a subsequence of the array it was given: the
  records kept stand in their original order, and none occurs more often than in the
  input.
\<close>

theorem filters_give_subsequence:
  assumes "snd (filterByTeam v teamId) = Inr ys \<or> snd (filterByTargetStatuses v) = Inr ys"
  shows "subseq ys (elements v) \<and> (\<forall>e. count_list ys e \<le> count_list (elements v) e)"
proof -
  have "subseq ys (elements v)"
  proof (cases "isArray v")
    case True
    with assms show ?thesis
      by (auto simp: filterByTeam_def filterByTargetStatuses_def dest: arrayFilter_subseq)
  next
    case False
    with assms show ?thesis
      by (auto simp: filterByTeam_def filterByTargetStatuses_def)
  qed
  then show ?thesis by (simp add: subseq_count_le)
qed

theorem filters_give_subsequence_witness:
  "snd (filterByTargetStatuses (JArr [sampleTeam, samplePlain, sampleNested, sampleEmptyStatus]))
     = Inr [sampleTeam, sampleNested, sampleEmptyStatus]
   \<and> subseq [sampleTeam, sampleNested, sampleEmptyStatus]
        (elements (JArr [sampleTeam, samplePlain, sampleNested, sampleEmptyStatus]))
   \<and> snd (filterByTeam (JArr [sampleTeam, samplePlain, sampleNested]) (JStr ''123''))
       = Inr [sampleTeam, sampleNested]
   \<and> subseq [sampleTeam, sampleNested] (elements (JArr [sampleTeam, samplePlain, sampleNested]))"
  using status_example team_example
    filters_give_subsequence
      [of "JArr [sampleTeam, samplePlain, sampleNested, sampleEmptyStatus]" JNull
          "[sampleTeam, sampleNested, sampleEmptyStatus]"]
    filters_give_subsequence
      [of "JArr [sampleTeam, samplePlain, sampleNested]" "JStr ''123''"
          "[sampleTeam, sampleNested]"]
  by blast

section \<open>The chains of alternatives\<close>

lemma ownerChain_candidates:
  "\<not> nullish e \<Longrightarrow> ownerChain e = firstTruthy (candidates e ownerPaths) (JObj [])"
  apply (simp add: ownerChain_def candidates_def ownerPaths_def jsOr_assoc)
  apply (simp add: firstTruthy_def jsOr_def)
  done

lemma ownerNameChain_candidates:
  "\<not> nullish e \<Longrightarrow> ownerNameChain e = firstTruthy (candidates e ownerNamePaths) (JStr [])"
  apply (simp add: ownerNameChain_def candidates_def ownerNamePaths_def jsOr_assoc)
  apply (simp add: firstTruthy_def jsOr_def)
  done

lemma ownerEmailChain_candidates:
  "\<not> nullish e \<Longrightarrow> ownerEmailChain e = firstTruthy (candidates e ownerEmailPaths) (JStr [])"
  apply (simp add: ownerEmailChain_def candidates_def ownerEmailPaths_def jsOr_assoc)
  apply (simp add: firstTruthy_def jsOr_def)
  done

lemma rowStatus_candidates:
  assumes "\<not> nullish e"
  shows "jsOr (statusOf e) (JStr []) = firstTruthy (candidates e statusPaths) (JStr [])"
proof (cases "find truthy (candidates e statusPaths)")
  case None
  then have "\<not> truthy (statusOf e)"
    using assms last_status_candidate [of e]
    by (simp add: statusOf_candidates firstTruthy_None find_truthy_None_falsy)
  with None show ?thesis by (simp add: jsOr_def firstTruthy_def)
next
  case (Some v)
  then have "statusOf e = v" and "truthy v"
    using assms by (simp_all add: statusOf_candidates firstTruthy_Some)
  with Some show ?thesis by (simp add: jsOr_def firstTruthy_def)
qed

lemma firstTruthy_at:
  assumes "i < length cs" and "truthy (cs ! i)" and "\<forall>j<i. \<not> truthy (cs ! j)"
  shows "firstTruthy cs d = cs ! i"
proof -
  from assms have "find truthy cs = Some (cs ! i)"
    by (auto simp: find_Some_iff)
  then show ?thesis by (simp add: firstTruthy_def)
qed

lemma firstTruthy_none:
  assumes "\<forall>c\<in>set cs. \<not> truthy c"
  shows "firstTruthy cs d = d"
proof -
  from assms have "find truthy cs = None" by (auto simp: find_None_iff)
  then show ?thesis by (simp add: firstTruthy_def)
qed


text \<open>
  C5, as the code has it. Each chain of \<^verbatim>\<open>||\<close> (team identifier over six locations,
  status over five, owner over four, owner name over three, owner e-mail over two)
  returns the first candidate that is truthy: \<^verbatim>\<open>undefined\<close>, \<^verbatim>\<open>null\<close>,
  \<^verbatim>\<open>false\<close>, \<^verbatim>\<open>0\<close> and the empty string are passed over. A truthy candidate is never
  passed over in favour of a later one. When no candidate is truthy the result is the
  default written at the end of the chain (the empty string for the status of a row
  and for the owner's name and e-mail, the empty object for the owner), and the value
  at the last location where no default is written (the two filters).
\<close>

theorem chains_return_first_truthy:
  "(\<not> nullish e \<longrightarrow>
      teamIdOf e = firstTruthy (candidates e teamIdPaths) (lookupPath e [''metadata'', ''teamId''])
    \<and> statusOf e = firstTruthy (candidates e statusPaths) (lookupPath e [''metadata'', ''state''])
    \<and> jsOr (statusOf e) (JStr []) = firstTruthy (candidates e statusPaths) (JStr [])
    \<and> ownerChain e = firstTruthy (candidates e ownerPaths) (JObj [])
    \<and> ownerNameChain e = firstTruthy (candidates e ownerNamePaths) (JStr [])
    \<and> ownerEmailChain e = firstTruthy (candidates e ownerEmailPaths) (JStr []))
   \<and> (i < length cs \<and> truthy (cs ! i) \<and> (\<forall>j<i. \<not> truthy (cs ! j)) \<longrightarrow> firstTruthy cs d = cs ! i)
   \<and> ((\<forall>c\<in>set cs. \<not> truthy c) \<longrightarrow> firstTruthy cs d = d)"
  using teamIdOf_candidates [of e] statusOf_candidates [of e] rowStatus_candidates [of e]
    ownerChain_candidates [of e] ownerNameChain_candidates [of e]
    ownerEmailChain_candidates [of e] firstTruthy_at [of i cs d] firstTruthy_none [of cs d]
  by blast

theorem chains_return_first_truthy_witness:
  "\<not> nullish sampleEmptyStatus
   \<and> candidates sampleEmptyStatus statusPaths
       = [JStr [], JStr ''ready'', JUndefined, JUndefined, JUndefined]
   \<and> statusOf sampleEmptyStatus = JStr ''ready''
   \<and> firstTruthy [JStr [], JStr ''ready'', JUndefined, JUndefined, JUndefined] JUndefined
       = JStr ''ready''
   \<and> firstTruthy [JStr [], JNull] (JNum 7) = JNum 7"
proof -
  have n: "\<not> nullish sampleEmptyStatus"
    by (simp add: nullish_def sampleEmptyStatus_def)
  have c: "candidates sampleEmptyStatus statusPaths
       = [JStr [], JStr ''ready'', JUndefined, JUndefined, JUndefined]"
    by (simp add: candidates_def statusPaths_def sampleEmptyStatus_def nullish_def)
  have l: "lookupPath sampleEmptyStatus [''metadata'', ''state''] = JUndefined"
    by (simp add: sampleEmptyStatus_def nullish_def)
  have one: "\<forall>j<(1::nat). \<not> truthy ([JStr [], JStr ''ready'', JUndefined, JUndefined, JUndefined] ! j)"
    by simp
  have two: "\<forall>c\<in>set [JStr [], JNull]. \<not> truthy c"
    by simp
  note t = chains_return_first_truthy
    [of sampleEmptyStatus 1 "[JStr [], JStr ''ready'', JUndefined, JUndefined, JUndefined]"
        JUndefined]
  note u = chains_return_first_truthy [of sampleEmptyStatus 0 "[JStr [], JNull]" "JNum 7"]
  from t n c l one have s: "statusOf sampleEmptyStatus = JStr ''ready''
     \<and> firstTruthy [JStr [], JStr ''ready'', JUndefined, JUndefined, JUndefined] JUndefined
       = JStr ''ready''"
    by simp
  from u two have "firstTruthy [JStr [], JNull] (JNum 7) = JNum 7"
    by blast
  with n c s show ?thesis by simp
qed

text \<open>
  The same claim with "the first candidate that is defined and not null" fails: in the
  record \<^verbatim>\<open>{status: "", state: "ready"}\<close> the first such candidate is the empty string
  at \<^verbatim>\<open>status\<close>, and the chain passes it over for \<^verbatim>\<open>state\<close>; the status filter
  keeps the record.
\<close>

theorem first_defined_status_skipped:
  "firstDefined (candidates (JObj [(''status'', JStr []), (''state'', JStr ''ready'')]) statusPaths)
     = Some (JStr [])
   \<and> statusOf (JObj [(''status'', JStr []), (''state'', JStr ''ready'')]) = JStr ''ready''
   \<and> Some (statusOf (JObj [(''status'', JStr []), (''state'', JStr ''ready'')]))
       \<noteq> firstDefined (candidates (JObj [(''status'', JStr []), (''state'', JStr ''ready'')]) statusPaths)
   \<and> snd (filterByTargetStatuses (JArr [JObj [(''status'', JStr []), (''state'', JStr ''ready'')]]))
       = Inr [JObj [(''status'', JStr []), (''state'', JStr ''ready'')]]"
  by code_simp


section \<open>Owner resolution\<close>

lemma at_sign: "strIncludes s ''@'' \<longleftrightarrow> CHR ''@'' \<in> set s"
  by (rule includes_single)

lemma ownerChain_None:
  assumes "\<not> nullish e" and "find truthy (candidates e ownerPaths) = None"
  shows "ownerChain e = JObj []"
  using assms by (simp add: ownerChain_candidates firstTruthy_def)

lemma ownerChain_Some:
  assumes "\<not> nullish e" and "find truthy (candidates e ownerPaths) = Some v"
  shows "ownerChain e = v \<and> truthy v"
  using assms by (simp add: ownerChain_candidates firstTruthy_Some)

lemma owner_resolution:
  assumes "\<not> nullish e"
  shows "(let owner = ownerChain e
      in if typeof owner = ''object'' \<and> owner \<noteq> JNull then
           (ownerNameChain owner, ownerEmailChain owner)
         else if typeof owner = ''string'' then
           (if strIncludes (stringOf owner) ''@''
            then (index (strSplit (stringOf owner) CHR ''@'') 0, owner)
            else (owner, JStr []))
         else (JStr [], JStr [])) = ownerSpec e"
proof (cases "find truthy (candidates e ownerPaths)")
  case None
  with assms have "ownerChain e = JObj []" by (rule ownerChain_None)
  with None show ?thesis
    by (simp add: ownerSpec_def typeof_def ownerNameChain_def ownerEmailChain_def jsOr_def)
next
  case (Some v)
  with assms have o: "ownerChain e = v" and t: "truthy v"
    using ownerChain_Some by blast+
  show ?thesis
  proof (cases v)
    case (JObj kvs)
    then have "\<not> nullish v" by (simp add: nullish_def)
    with JObj Some o show ?thesis
      by (simp add: ownerSpec_def typeof_def ownerNameChain_candidates
            ownerEmailChain_candidates Let_def)
  next
    case (JArr xs)
    then have "\<not> nullish v" by (simp add: nullish_def)
    with JArr Some o show ?thesis
      by (simp add: ownerSpec_def typeof_def ownerNameChain_candidates
            ownerEmailChain_candidates Let_def)
  next
    case (JStr s)
    with Some o show ?thesis
      by (simp add: ownerSpec_def typeof_def stringOf_def at_sign index_strSplit_0)
  qed (use Some o t in \<open>simp_all add: ownerSpec_def typeof_def\<close>)
qed


text \<open>
  C2. On every record (a value that is neither \<^verbatim>\<open>undefined\<close> nor \<^verbatim>\<open>null\<close>), the owner
  name and e-mail both scripts compute are the ones of \<open>ownerSpec\<close>: source the first
  non-empty value among \<^verbatim>\<open>owner\<close>, \<^verbatim>\<open>created_by\<close>, \<^verbatim>\<open>createdBy\<close>, \<^verbatim>\<open>author\<close>;
  from an object the first of its name fields and the first of its e-mail fields; from
  a string with \<^verbatim>\<open>@\<close> the string as e-mail and the part before the first \<^verbatim>\<open>@\<close> as
  name; from a string without \<^verbatim>\<open>@\<close> the string as name and no e-mail; both empty
  with no source.
\<close>

theorem owner_resolution_as_specified:
  assumes "\<not> nullish e"
  shows "teamOwner e = ownerSpec e \<and> readyOwner e = ownerSpec e"
  using owner_resolution [OF assms] by (simp add: teamOwner_def readyOwner_def)

lemma ownerSpec_examples:
  "ownerSpec (JObj [(''owner'', JObj [(''name'', JStr ''Jane Smith''), (''email'', JStr ''jane@x.com'')])])
     = (JStr ''Jane Smith'', JStr ''jane@x.com'')"
  "ownerSpec (JObj [(''owner'', JStr ''bob@x.com'')]) = (JStr ''bob'', JStr ''bob@x.com'')"
  "ownerSpec (JObj [(''owner'', JStr ''Bob'')]) = (JStr ''Bob'', JStr [])"
  "ownerSpec (JObj [(''name'', JStr ''Pricing'')]) = (JStr [], JStr [])"
  by code_simp+

theorem owner_resolution_as_specified_witness:
  "\<not> nullish (JObj [(''owner'', JStr ''bob@x.com'')])
   \<and> teamOwner (JObj [(''owner'', JStr ''bob@x.com'')]) = (JStr ''bob'', JStr ''bob@x.com'')
   \<and> readyOwner (JObj [(''owner'', JStr ''bob@x.com'')]) = (JStr ''bob'', JStr ''bob@x.com'')"
proof -
  have n: "\<not> nullish (JObj [(''owner'', JStr ''bob@x.com'')])"
    by (simp add: nullish_def)
  from owner_resolution_as_specified [OF n] ownerSpec_examples(2) n
  show ?thesis by simp
qed


text \<open>
  C9. The team report and the status report resolve the owner of a record to the same
  name and e-mail, and the callback of the unique-e-mail summary of each script gives
  the e-mail of that resolution (the summary computes no name).
\<close>

theorem owner_resolution_shared:
  "teamOwner e = readyOwner e
   \<and> teamSummaryEmail e = snd (teamOwner e)
   \<and> readySummaryEmail e = snd (readyOwner e)
   \<and> teamSummaryEmail e = readySummaryEmail e"
  by (simp add: teamOwner_def readyOwner_def teamSummaryEmail_def readySummaryEmail_def
        Let_def)


section \<open>Rows\<close>

lemma jsOr_default_truthy: "truthy (jsOr x (JStr [])) \<longleftrightarrow> jsOr x (JStr []) \<noteq> JStr []"
  by (cases "truthy x") (auto simp: jsOr_def)

lemma urlOf_char:
  assumes "urlOf (jsOr x (JStr [])) = Inr url"
  shows "(url = [] \<longleftrightarrow> jsOr x (JStr []) = JStr [])
     \<and> (jsOr x (JStr []) \<noteq> JStr [] \<longrightarrow>
          (\<exists>s. ToString (jsOr x (JStr [])) = Inr s \<and> url = ''https://eppo.cloud/experiments/'' @ s))"
  using assms jsOr_default_truthy [of x]
  by (auto simp: urlOf_def split: if_splits sum.splits)


text \<open>
  C6. In every row either report produces, the URL is the empty string exactly when
  the experiment identifier is the empty string; otherwise the URL is
  \<^verbatim>\<open>https://eppo.cloud/experiments/\<close> followed by the identifier (converted to a
  string by the template literal).
\<close>

theorem row_url_empty_iff_id_empty:
  "(teamRow e = Inr r \<longrightarrow>
      (experimentUrl r = [] \<longleftrightarrow> experimentId r = JStr [])
      \<and> (experimentId r \<noteq> JStr [] \<longrightarrow>
           (\<exists>s. ToString (experimentId r) = Inr s
              \<and> experimentUrl r = ''https://eppo.cloud/experiments/'' @ s)))
   \<and> (readyRow e = Inr q \<longrightarrow>
      (experimentUrl q = [] \<longleftrightarrow> experimentId q = JStr [])
      \<and> (experimentId q \<noteq> JStr [] \<longrightarrow>
           (\<exists>s. ToString (experimentId q) = Inr s
              \<and> experimentUrl q = ''https://eppo.cloud/experiments/'' @ s)))"
proof (intro conjI impI)
  assume "teamRow e = Inr r"
  then obtain url where
    u: "urlOf (jsOr (jsOr (getProp e ''id'') (getProp e ''experiment_id'')) (JStr [])) = Inr url"
    and r: "experimentId r = jsOr (jsOr (getProp e ''id'') (getProp e ''experiment_id'')) (JStr [])"
       "experimentUrl r = url"
    by (auto simp: teamRow_def Let_def split: if_splits sum.splits)
  from urlOf_char [OF u] r
  show "experimentUrl r = [] \<longleftrightarrow> experimentId r = JStr []"
    and "experimentId r \<noteq> JStr [] \<Longrightarrow> \<exists>s. ToString (experimentId r) = Inr s
              \<and> experimentUrl r = ''https://eppo.cloud/experiments/'' @ s"
    by simp_all
next
  assume "readyRow e = Inr q"
  then obtain url where
    u: "urlOf (jsOr (jsOr (getProp e ''id'') (getProp e ''experiment_id'')) (JStr [])) = Inr url"
    and r: "experimentId q = jsOr (jsOr (getProp e ''id'') (getProp e ''experiment_id'')) (JStr [])"
       "experimentUrl q = url"
    by (auto simp: readyRow_def Let_def split: if_splits sum.splits)
  from urlOf_char [OF u] r
  show "experimentUrl q = [] \<longleftrightarrow> experimentId q = JStr []"
    and "experimentId q \<noteq> JStr [] \<Longrightarrow> \<exists>s. ToString (experimentId q) = Inr s
              \<and> experimentUrl q = ''https://eppo.cloud/experiments/'' @ s"
    by simp_all
qed
lemma row_examples:
  "teamRow sampleTeam =
     Inr \<lparr>experimentName = JStr ''Checkout Flow Optimization'', experimentId = JStr ''exp_456'',
          ownerName = JStr ''Jane Smith'', ownerEmail = JStr ''jane@x.com'',
          experimentUrl = ''https://eppo.cloud/experiments/exp_456''\<rparr>"
  "readyRow samplePlain =
     Inr \<lparr>experimentName = JStr ''Pricing'', experimentId = JStr [],
          ownerName = JStr ''Bob'', ownerEmail = JStr [],
          experimentUrl = [], experimentStatus = JStr ''READY_SOON''\<rparr>"
  by code_simp+

theorem row_url_empty_iff_id_empty_witness:
  "(\<exists>r. teamRow sampleTeam = Inr r \<and> experimentId r = JStr ''exp_456''
        \<and> experimentUrl r = ''https://eppo.cloud/experiments/exp_456'')
   \<and> (\<exists>q. readyRow samplePlain = Inr q \<and> experimentId q = JStr [] \<and> experimentUrl q = [])"
proof -
  let ?r = "\<lparr>experimentName = JStr ''Checkout Flow Optimization'', experimentId = JStr ''exp_456'',
          ownerName = JStr ''Jane Smith'', ownerEmail = JStr ''jane@x.com'',
          experimentUrl = ''https://eppo.cloud/experiments/exp_456''\<rparr>"
  let ?q = "\<lparr>experimentName = JStr ''Pricing'', experimentId = JStr [],
          ownerName = JStr ''Bob'', ownerEmail = JStr [],
          experimentUrl = [], experimentStatus = JStr ''READY_SOON''\<rparr>"
  from row_url_empty_iff_id_empty [of sampleTeam ?r ?q] row_examples(1)
  have "\<exists>s. ToString (experimentId ?r) = Inr s
     \<and> experimentUrl ?r = ''https://eppo.cloud/experiments/'' @ s"
    by simp
  then have a: "experimentUrl ?r = ''https://eppo.cloud/experiments/exp_456''" by simp
  from row_url_empty_iff_id_empty [of samplePlain ?r ?q] row_examples(2)
  have b: "experimentUrl ?q = [] \<longleftrightarrow> experimentId ?q = JStr []"
    by blast
  from a b row_examples show ?thesis by simp
qed


section \<open>A payload that is not an array\<close>

text \<open>
  C8. When the fetched payload is not an array, each filter prints its warning and
  returns the empty array without throwing; the serializer, given the empty array,
  prints that nothing was found and writes no file; and the whole run prints no error,
  saves nothing and ends with exit status 0.
\<close>

theorem non_array_payload_gives_clean_empty_run:
  assumes "\<not> isArray v"
  shows "filterByTargetStatuses v = ([WarnNotArray (typeof v)], Inr [])
   \<and> filterByTeam v target = ([WarnNotArray (typeof v)], Inr [])
   \<and> generateReadyExperimentsCSV ev [] = \<lparr>console = [LogNoneFound], files = [], thrown = None\<rparr>
   \<and> displayExperimentOwners ev teamId [] = \<lparr>console = [LogNoneFound], files = [], thrown = None\<rparr>
   \<and> runReady ev (Inr v)
       = \<lparr>printed = [LogFetched None, WarnNotArray (typeof v), LogNoneFound], saved = [],
          exitCode = 0\<rparr>
   \<and> runTeam ev teamId (Inr v)
       = \<lparr>printed = [LogFetched None, WarnNotArray (typeof v), LogNoneFound], saved = [],
          exitCode = 0\<rparr>"
proof -
  have f: "filterByTargetStatuses v = ([WarnNotArray (typeof v)], Inr [])"
    "filterByTeam v target = ([WarnNotArray (typeof v)], Inr [])" for target
    using assms by (simp_all add: filterByTargetStatuses_def filterByTeam_def)
  have g: "generateReadyExperimentsCSV ev [] = \<lparr>console = [LogNoneFound], files = [], thrown = None\<rparr>"
    "displayExperimentOwners ev teamId [] = \<lparr>console = [LogNoneFound], files = [], thrown = None\<rparr>"
    by (simp_all add: generateReadyExperimentsCSV_def displayExperimentOwners_def)
  have r: "runReady ev (Inr v)
       = \<lparr>printed = [LogFetched None, WarnNotArray (typeof v), LogNoneFound], saved = [],
          exitCode = 0\<rparr>"
    using assms
    by (simp add: runReady_def f g logFetched_def printUnique_def filterEffects_def
          filtered_def andThen_def finish_def)
  have t: "runTeam ev teamId (Inr v)
       = \<lparr>printed = [LogFetched None, WarnNotArray (typeof v), LogNoneFound], saved = [],
          exitCode = 0\<rparr>"
    using assms
    by (simp add: runTeam_def f g logFetched_def printUnique_def filterEffects_def
          filtered_def andThen_def finish_def)
  from f g r t show ?thesis by simp
qed

theorem non_array_payload_gives_clean_empty_run_witness:
  "\<not> isArray (JObj [(''experiments'', JArr [sampleTeam])])
   \<and> filterByTargetStatuses (JObj [(''experiments'', JArr [sampleTeam])])
       = ([WarnNotArray ''object''], Inr [])
   \<and> runReady \<lparr>today = ''2024-01-15'', diskOk = True\<rparr>
        (Inr (JObj [(''experiments'', JArr [sampleTeam])]))
       = \<lparr>printed = [LogFetched None, WarnNotArray ''object'', LogNoneFound], saved = [],
          exitCode = 0\<rparr>
   \<and> runTeam \<lparr>today = ''2024-01-15'', diskOk = True\<rparr> ''123''
        (Inr (JObj [(''experiments'', JArr [sampleTeam])]))
       = \<lparr>printed = [LogFetched None, WarnNotArray ''object'', LogNoneFound], saved = [],
          exitCode = 0\<rparr>"
proof -
  have n: "\<not> isArray (JObj [(''experiments'', JArr [sampleTeam])])"
    by (simp add: isArray_def)
  have t: "typeof (JObj [(''experiments'', JArr [sampleTeam])]) = ''object''"
    by (simp add: typeof_def)
  from non_array_payload_gives_clean_empty_run
         [OF n, of JNull "\<lparr>today = ''2024-01-15'', diskOk = True\<rparr>" "''123''"] n t
  show ?thesis by simp
qed


section \<open>A complete run\<close>

text \<open>
  The team report on three records, two of them of team 123 (one by number at
  \<^verbatim>\<open>team_id\<close>, one by string at \<^verbatim>\<open>metadata.teamId\<close>): the header and two rows are
  saved under the name of the team and the day. A failed fetch, and a \<^verbatim>\<open>null\<close> among
  the records, end the run with status 1.
\<close>

lemma run_examples:
  "runTeam \<lparr>today = ''2024-01-15'', diskOk = True\<rparr> ''123''
     (Inr (JArr [sampleTeam, samplePlain, sampleNested]))
   = \<lparr>printed =
        [LogFetched (Some 3), LogUnique ''123'', LogUnique ''123'', LogFound 2,
         LogRow ''Checkout Flow Optimization,exp_456,Jane Smith,jane@x.com,https://eppo.cloud/experiments/exp_456'',
         LogRow ''Unnamed Experiment,,bob,bob@x.com,'',
         LogSaved ''eppo_experiments_team_123_2024-01-15.csv'',
         LogSummary 2 2],
      saved =
        [(''eppo_experiments_team_123_2024-01-15.csv'',
          ''experiment_name,experiment_id,owner.name,owner.email,experiment_url''
          @ [CHR 0x0A]
          @ ''Checkout Flow Optimization,exp_456,Jane Smith,jane@x.com,https://eppo.cloud/experiments/exp_456''
          @ [CHR 0x0A]
          @ ''Unnamed Experiment,,bob,bob@x.com,'')],
      exitCode = 0\<rparr>"
  "exitCode (runReady \<lparr>today = ''2024-01-15'', diskOk = True\<rparr> (Inl FetchError)) = 1"
  "exitCode (runReady \<lparr>today = ''2024-01-15'', diskOk = True\<rparr> (Inr (JArr [JNull]))) = 1"
  by code_simp+

end
